theory Spec2Isabelle
  imports Complex_Main
begin

section \<open>Bike sharing demand: feature engineering and submission formatting\<close>

text \<open>
  The notebook \<^verbatim>\<open>bike_sharing_demand_solution.ipynb\<close> defines one function,
  \<^verbatim>\<open>feature_engineering(df)\<close>, and builds its submission frames inline
  (\<^verbatim>\<open>initial_submission\<close>, \<^verbatim>\<open>log_submission\<close>, \<^verbatim>\<open>advanced_submission\<close>).
  Both work on pandas objects. A \<^verbatim>\<open>DataFrame\<close> is modelled as a record of columns, a
  column (\<^verbatim>\<open>Series\<close>) as the list of its values in row order, and a vectorised
  operation as the elementwise list operation it is.

  Floating-point columns are taken to hold finite values and are modelled as reals:
  comparing a float with an integer bin edge or with 0 is exact, so binning and clipping
  are modelled exactly. The float product of the interaction columns rounds, and
  \<^verbatim>\<open>pd.to_datetime\<close> is library code; both are parameters of the model.
\<close>

subsection \<open>Data model\<close>

text \<open>A pandas \<^verbatim>\<open>Timestamp\<close>, by the fields \<^verbatim>\<open>.dt\<close> reads.\<close>

record timestamp =
  ts_year :: int
  ts_month :: int
  ts_day :: int
  ts_hour :: int
  ts_minute :: int
  ts_second :: int

text \<open>
  The \<^verbatim>\<open>datetime\<close> column is of dtype \<^verbatim>\<open>object\<close> (strings, as \<^verbatim>\<open>read_csv\<close> leaves it)
  or of dtype \<^verbatim>\<open>datetime64[ns]\<close>.
\<close>

datatype dtcol = StrCol "string list" | DtCol "timestamp list"

datatype dtcell = Str string | Ts timestamp

text \<open>
  The frame. The first six columns are the ones \<^verbatim>\<open>feature_engineering\<close> reads; a
  column it assigns is \<open>None\<close> while the frame does not have it. A missing value
  (\<^verbatim>\<open>NaN\<close>) of a categorical column is \<open>None\<close> inside the column. Every other column
  of the frame (\<^verbatim>\<open>holiday\<close>, \<^verbatim>\<open>workingday\<close>, \<^verbatim>\<open>atemp\<close>, \<^verbatim>\<open>casual\<close>, \<^verbatim>\<open>registered\<close>,
  \<^verbatim>\<open>count\<close>) lives in the record's extension.
\<close>

record frame =
  datetime :: dtcol
  season :: "int list"
  weather :: "int list"
  temp :: "real list"
  humidity :: "real list"
  windspeed :: "real list"
  hour :: "int list option"
  day :: "int list option"
  month :: "int list option"
  year :: "int list option"
  dayofweek :: "int list option"
  time_of_day :: "string list option"
  is_rush_hour :: "int list option"
  is_weekend :: "int list option"
  weather_season :: "string list option"
  temp_bin :: "string option list option"
  humidity_bin :: "string option list option"
  windspeed_bin :: "string option list option"
  temp_humidity :: "real list option"
  temp_windspeed :: "real list option"

datatype error = KeyError | ValueError | AttributeError

text \<open>The library operations the model is parameterised by.\<close>

record pandas =
  to_datetime :: "string \<Rightarrow> timestamp option"
  float_mul :: "real \<Rightarrow> real \<Rightarrow> real"

fun dt_len :: "dtcol \<Rightarrow> nat" where
  "dt_len (StrCol ss) = length ss"
| "dt_len (DtCol ts) = length ts"

fun dt_cell :: "dtcol \<Rightarrow> nat \<Rightarrow> dtcell" where
  "dt_cell (StrCol ss) i = Str (ss ! i)"
| "dt_cell (DtCol ts) i = Ts (ts ! i)"

definition nrows :: "'a frame_scheme \<Rightarrow> nat" where
  "nrows f = dt_len (datetime f)"

definition has_len :: "nat \<Rightarrow> 'c list option \<Rightarrow> bool" where
  "has_len n c = (case c of None \<Rightarrow> True | Some xs \<Rightarrow> length xs = n)"

text \<open>The invariant of a \<^verbatim>\<open>DataFrame\<close>: every column it has holds one value per row.\<close>

definition wf_frame :: "'a frame_scheme \<Rightarrow> bool" where
  "wf_frame f =
     (let n = nrows f in
      length (season f) = n \<and> length (weather f) = n \<and> length (temp f) = n \<and>
      length (humidity f) = n \<and> length (windspeed f) = n \<and>
      has_len n (hour f) \<and> has_len n (day f) \<and> has_len n (month f) \<and>
      has_len n (year f) \<and> has_len n (dayofweek f) \<and> has_len n (time_of_day f) \<and>
      has_len n (is_rush_hour f) \<and> has_len n (is_weekend f) \<and>
      has_len n (weather_season f) \<and> has_len n (temp_bin f) \<and>
      has_len n (humidity_bin f) \<and> has_len n (windspeed_bin f) \<and>
      has_len n (temp_humidity f) \<and> has_len n (temp_windspeed f))"

subsection \<open>Library operations used by the notebook\<close>

text \<open>
  \<^verbatim>\<open>Series.dt.dayofweek\<close>: the day of the week of a Gregorian date, Monday = 0, by
  Sakamoto's method. \<open>month_term\<close> is its table; a \<^verbatim>\<open>Timestamp\<close> has a month from 1
  to 12.
\<close>

definition month_term :: "int \<Rightarrow> int" where
  "month_term m = (if 1 \<le> m \<and> m \<le> 12 then [0, 3, 2, 5, 0, 3, 5, 1, 4, 6, 2, 4] ! nat (m - 1) else 0)"

definition dt_dayofweek :: "timestamp \<Rightarrow> int" where
  "dt_dayofweek t =
     (let y = (if ts_month t < 3 then ts_year t - 1 else ts_year t);
          c = y div 100;
          g = y - c * 100;
          f = 5 * (c mod 4)
      in (ts_day t - 1 + month_term (ts_month t) + f + g + g div 4) mod 7)"

text \<open>
  \<^verbatim>\<open>numpy.searchsorted(bins, x, side='left')\<close> on increasing \<open>bins\<close>: the number of
  edges strictly below \<open>x\<close>.
\<close>

definition searchsorted_left :: "real list \<Rightarrow> real \<Rightarrow> nat" where
  "searchsorted_left bins x = length (takeWhile (\<lambda>b. b < x) bins)"

text \<open>
  \<^verbatim>\<open>pd.cut(x, bins=bins, labels=labels)\<close> for one value, with the defaults
  \<^verbatim>\<open>right=True\<close> and \<^verbatim>\<open>include_lowest=False\<close> the notebook leaves in place: pandas
  locates \<open>x\<close> with \<^verbatim>\<open>searchsorted(side='left')\<close>, masks the positions \<open>0\<close> and
  \<open>len(bins)\<close> as missing and labels the others by \<open>labels[ids - 1]\<close>.
\<close>

definition pd_cut :: "real list \<Rightarrow> string list \<Rightarrow> real \<Rightarrow> string option" where
  "pd_cut bins labels x =
     (let ids = searchsorted_left bins x
      in if ids = 0 \<or> ids = length bins then None else Some (labels ! (ids - 1)))"

text \<open>\<^verbatim>\<open>str\<close> of a Python integer, as \<^verbatim>\<open>astype(str)\<close> applies it to an integer column.\<close>

definition digit_char :: "nat \<Rightarrow> char" where
  "digit_char d = ''0123456789'' ! d"

fun str_nat :: "nat \<Rightarrow> string" where
  "str_nat n = (if n < 10 then [digit_char n] else str_nat (n div 10) @ [digit_char (n mod 10)])"

definition str_int :: "int \<Rightarrow> string" where
  "str_int i = (if i < 0 then CHR ''-'' # str_nat (nat (- i)) else str_nat (nat i))"


text \<open>Elementwise comparisons and connectives of \<^verbatim>\<open>Series\<close>, and \<^verbatim>\<open>astype(int)\<close> of a boolean one.\<close>

definition ge_s :: "int list \<Rightarrow> int \<Rightarrow> bool list" where
  "ge_s xs k = map (\<lambda>x. x \<ge> k) xs"

definition le_s :: "int list \<Rightarrow> int \<Rightarrow> bool list" where
  "le_s xs k = map (\<lambda>x. x \<le> k) xs"

definition lt_s :: "int list \<Rightarrow> int \<Rightarrow> bool list" where
  "lt_s xs k = map (\<lambda>x. x < k) xs"

definition and_s :: "bool list \<Rightarrow> bool list \<Rightarrow> bool list" where
  "and_s xs ys = map2 (\<and>) xs ys"

definition or_s :: "bool list \<Rightarrow> bool list \<Rightarrow> bool list" where
  "or_s xs ys = map2 (\<or>) xs ys"

definition astype_int :: "bool list \<Rightarrow> int list" where
  "astype_int bs = map (\<lambda>b. if b then 1 else 0) bs"

text \<open>Reading a column the frame may lack, and the \<^verbatim>\<open>.dt\<close> accessor of the datetime column.\<close>

definition col :: "'c option \<Rightarrow> error + 'c" where
  "col c = (case c of None \<Rightarrow> Inl KeyError | Some xs \<Rightarrow> Inr xs)"

definition dt :: "dtcol \<Rightarrow> error + timestamp list" where
  "dt c = (case c of StrCol ss \<Rightarrow> Inl AttributeError | DtCol ts \<Rightarrow> Inr ts)"

definition and_then :: "error + 'x \<Rightarrow> ('x \<Rightarrow> error + 'y) \<Rightarrow> error + 'y" where
  "and_then r k = (case r of Inl e \<Rightarrow> Inl e | Inr x \<Rightarrow> k x)"

subsection \<open>The statements of \<^verbatim>\<open>feature_engineering\<close>\<close>

text \<open>
  Each assignment \<^verbatim>\<open>df[...] = ...\<close> of the function body, in source order, as a function
  of the frame \<open>df\<close> refers to.
\<close>

definition conv_datetime :: "pandas \<Rightarrow> 'a frame_scheme \<Rightarrow> error + 'a frame_scheme" where
  "conv_datetime P f =
     (case datetime f of
        DtCol ts \<Rightarrow> Inr f
      | StrCol ss \<Rightarrow>
          (case those (map (to_datetime P) ss) of
             None \<Rightarrow> Inl ValueError
           | Some ts \<Rightarrow> Inr (f\<lparr>datetime := DtCol ts\<rparr>)))"

definition set_hour :: "'a frame_scheme \<Rightarrow> error + 'a frame_scheme" where
  "set_hour f = and_then (dt (datetime f)) (\<lambda>ts. Inr (f\<lparr>hour := Some (map ts_hour ts)\<rparr>))"

definition set_day :: "'a frame_scheme \<Rightarrow> error + 'a frame_scheme" where
  "set_day f = and_then (dt (datetime f)) (\<lambda>ts. Inr (f\<lparr>day := Some (map ts_day ts)\<rparr>))"

definition set_month :: "'a frame_scheme \<Rightarrow> error + 'a frame_scheme" where
  "set_month f = and_then (dt (datetime f)) (\<lambda>ts. Inr (f\<lparr>month := Some (map ts_month ts)\<rparr>))"

definition set_year :: "'a frame_scheme \<Rightarrow> error + 'a frame_scheme" where
  "set_year f = and_then (dt (datetime f)) (\<lambda>ts. Inr (f\<lparr>year := Some (map ts_year ts)\<rparr>))"

definition set_dayofweek :: "'a frame_scheme \<Rightarrow> error + 'a frame_scheme" where
  "set_dayofweek f =
     and_then (dt (datetime f)) (\<lambda>ts. Inr (f\<lparr>dayofweek := Some (map dt_dayofweek ts)\<rparr>))"

definition time_label :: "int \<Rightarrow> string" where
  "time_label x =
     (if 6 \<le> x \<and> x < 12 then ''morning''
      else if 12 \<le> x \<and> x < 18 then ''afternoon''
      else if 18 \<le> x \<and> x < 22 then ''evening''
      else ''night'')"

definition set_time_of_day :: "'a frame_scheme \<Rightarrow> error + 'a frame_scheme" where
  "set_time_of_day f =
     and_then (col (hour f)) (\<lambda>hs. Inr (f\<lparr>time_of_day := Some (map time_label hs)\<rparr>))"

definition set_is_rush_hour :: "'a frame_scheme \<Rightarrow> error + 'a frame_scheme" where
  "set_is_rush_hour f =
     and_then (col (hour f)) (\<lambda>hs.
     and_then (col (dayofweek f)) (\<lambda>ds.
       Inr (f\<lparr>is_rush_hour := Some (astype_int
         (and_s (or_s (and_s (ge_s hs 7) (le_s hs 9)) (and_s (ge_s hs 16) (le_s hs 19)))
                (lt_s ds 5)))\<rparr>)))"

definition set_is_weekend :: "'a frame_scheme \<Rightarrow> error + 'a frame_scheme" where
  "set_is_weekend f =
     and_then (col (dayofweek f)) (\<lambda>ds. Inr (f\<lparr>is_weekend := Some (astype_int (ge_s ds 5))\<rparr>))"

definition set_weather_season :: "'a frame_scheme \<Rightarrow> error + 'a frame_scheme" where
  "set_weather_season f =
     Inr (f\<lparr>weather_season :=
       Some (map2 (@) (map (\<lambda>s. s @ ''_'') (map str_int (weather f))) (map str_int (season f)))\<rparr>)"

definition temp_bins :: "real list" where
  "temp_bins = [-20, 0, 10, 20, 30, 50]"

definition temp_labels :: "string list" where
  "temp_labels = [''very_cold'', ''cold'', ''mild'', ''warm'', ''hot'']"

definition humidity_bins :: "real list" where
  "humidity_bins = [0, 25, 50, 75, 100]"

definition windspeed_bins :: "real list" where
  "windspeed_bins = [0, 10, 20, 30, 100]"

definition level_labels :: "string list" where
  "level_labels = [''low'', ''medium'', ''high'', ''very_high'']"

definition set_temp_bin :: "'a frame_scheme \<Rightarrow> error + 'a frame_scheme" where
  "set_temp_bin f = Inr (f\<lparr>temp_bin := Some (map (pd_cut temp_bins temp_labels) (temp f))\<rparr>)"

definition set_humidity_bin :: "'a frame_scheme \<Rightarrow> error + 'a frame_scheme" where
  "set_humidity_bin f =
     Inr (f\<lparr>humidity_bin := Some (map (pd_cut humidity_bins level_labels) (humidity f))\<rparr>)"

definition set_windspeed_bin :: "'a frame_scheme \<Rightarrow> error + 'a frame_scheme" where
  "set_windspeed_bin f =
     Inr (f\<lparr>windspeed_bin := Some (map (pd_cut windspeed_bins level_labels) (windspeed f))\<rparr>)"

definition set_temp_humidity :: "pandas \<Rightarrow> 'a frame_scheme \<Rightarrow> error + 'a frame_scheme" where
  "set_temp_humidity P f =
     Inr (f\<lparr>temp_humidity := Some (map2 (float_mul P) (temp f) (humidity f))\<rparr>)"

definition set_temp_windspeed :: "pandas \<Rightarrow> 'a frame_scheme \<Rightarrow> error + 'a frame_scheme" where
  "set_temp_windspeed P f =
     Inr (f\<lparr>temp_windspeed := Some (map2 (float_mul P) (temp f) (windspeed f))\<rparr>)"

subsection \<open>The object store and \<^verbatim>\<open>feature_engineering\<close>\<close>

text \<open>
  Frames are mutable objects. The store is the list of the frames that exist, a
  reference is a position in it, and the state of the function body is the store
  together with the reference its variable \<open>df\<close> holds. \<^verbatim>\<open>df = df.copy()\<close> allocates a
  new frame with the same columns and rebinds \<open>df\<close> to it; \<^verbatim>\<open>df[...] = ...\<close> changes the
  frame \<open>df\<close> refers to, in place.
  The body only binds whole columns and never writes into the values of
  one, so the store holds each frame as a value.
\<close>

type_synonym 'a store = "'a frame_scheme list"

text \<open>
  A statement on the store ends normally, with the new store and the reference \<open>df\<close>
  then holds, or raises, leaving the store as it is at that moment.
\<close>

definition copy_df :: "'a store \<times> nat \<Rightarrow> (error \<times> 'a store) + 'a store \<times> nat" where
  "copy_df s = (case s of (h, df) \<Rightarrow> Inr (h @ [h ! df], length h))"

definition on_df ::
  "('a frame_scheme \<Rightarrow> error + 'a frame_scheme) \<Rightarrow>
   'a store \<times> nat \<Rightarrow> (error \<times> 'a store) + 'a store \<times> nat" where
  "on_df st s =
     (case s of (h, df) \<Rightarrow>
        (case st (h ! df) of Inl e \<Rightarrow> Inl (e, h) | Inr g \<Rightarrow> Inr (h[df := g], df)))"

text \<open>Statements in sequence; the first exception ends the run.\<close>

fun steps :: "('s \<Rightarrow> 'e + 's) list \<Rightarrow> 's \<Rightarrow> 'e + 's" where
  "steps [] s = Inr s"
| "steps (c # cs) s = (case c s of Inl e \<Rightarrow> Inl e | Inr s' \<Rightarrow> steps cs s')"

text \<open>The assignments after the copy, as statements on a frame.\<close>

definition assignments :: "pandas \<Rightarrow> ('a frame_scheme \<Rightarrow> error + 'a frame_scheme) list" where
  "assignments P =
     [conv_datetime P,
      set_hour, set_day, set_month, set_year, set_dayofweek,
      set_time_of_day,
      set_is_rush_hour,
      set_is_weekend,
      set_weather_season,
      set_temp_bin,
      set_humidity_bin,
      set_windspeed_bin,
      set_temp_humidity P, set_temp_windspeed P]"

text \<open>
  \<^verbatim>\<open>feature_engineering(df)\<close>, called in store \<open>h\<close> with the reference \<open>df\<close>: the store
  after the call and the reference returned, or the exception raised and the store it
  leaves.
\<close>

definition feature_engineering ::
  "pandas \<Rightarrow> 'a store \<times> nat \<Rightarrow> (error \<times> 'a store) + 'a store \<times> nat" where
  "feature_engineering P = steps (copy_df # map on_df (assignments P))"

text \<open>
  The spec's \<open>enrich\<close>: the frame a call of \<^verbatim>\<open>feature_engineering\<close> returns, the
  argument being the only frame of the store.
\<close>

definition enrich :: "pandas \<Rightarrow> 'a frame_scheme \<Rightarrow> error + 'a frame_scheme" where
  "enrich P f =
     (case feature_engineering P ([f], 0) of
        Inl (e, h) \<Rightarrow> Inl e
      | Inr (h, r) \<Rightarrow> Inr (h ! r))"

subsection \<open>Rows\<close>

text \<open>
  Row \<open>i\<close> of a frame: the raw fields \<^verbatim>\<open>feature_engineering\<close> reads, and the fields it
  assigns (\<open>None\<close> where the frame lacks the column).
\<close>

record raw_row =
  r_datetime :: dtcell
  r_season :: int
  r_weather :: int
  r_temp :: real
  r_humidity :: real
  r_windspeed :: real

record derived =
  d_hour :: "int option"
  d_day :: "int option"
  d_month :: "int option"
  d_year :: "int option"
  d_dayofweek :: "int option"
  d_time_of_day :: "string option"
  d_is_rush_hour :: "int option"
  d_is_weekend :: "int option"
  d_weather_season :: "string option"
  d_temp_bin :: "string option option"
  d_humidity_bin :: "string option option"
  d_windspeed_bin :: "string option option"
  d_temp_humidity :: "real option"
  d_temp_windspeed :: "real option"

definition cell :: "'c list option \<Rightarrow> nat \<Rightarrow> 'c option" where
  "cell c i = map_option (\<lambda>xs. xs ! i) c"

definition raw_at :: "'a frame_scheme \<Rightarrow> nat \<Rightarrow> raw_row" where
  "raw_at f i =
     \<lparr>r_datetime = dt_cell (datetime f) i, r_season = season f ! i, r_weather = weather f ! i,
      r_temp = temp f ! i, r_humidity = humidity f ! i, r_windspeed = windspeed f ! i\<rparr>"

definition derived_at :: "'a frame_scheme \<Rightarrow> nat \<Rightarrow> derived" where
  "derived_at f i =
     \<lparr>d_hour = cell (hour f) i, d_day = cell (day f) i, d_month = cell (month f) i,
      d_year = cell (year f) i, d_dayofweek = cell (dayofweek f) i,
      d_time_of_day = cell (time_of_day f) i, d_is_rush_hour = cell (is_rush_hour f) i,
      d_is_weekend = cell (is_weekend f) i, d_weather_season = cell (weather_season f) i,
      d_temp_bin = cell (temp_bin f) i, d_humidity_bin = cell (humidity_bin f) i,
      d_windspeed_bin = cell (windspeed_bin f) i, d_temp_humidity = cell (temp_humidity f) i,
      d_temp_windspeed = cell (temp_windspeed f) i\<rparr>"

text \<open>
  The body of \<^verbatim>\<open>feature_engineering\<close> read for a single row: the timestamp of the row's
  \<^verbatim>\<open>datetime\<close> cell, and every assigned field from the row's own raw fields.
\<close>

fun cell_stamp :: "pandas \<Rightarrow> dtcell \<Rightarrow> timestamp option" where
  "cell_stamp P (Str s) = to_datetime P s"
| "cell_stamp P (Ts t) = Some t"

definition flag :: "bool \<Rightarrow> int" where
  "flag b = (if b then 1 else 0)"

definition derive :: "pandas \<Rightarrow> timestamp \<Rightarrow> raw_row \<Rightarrow> derived" where
  "derive P t r =
     (let h = ts_hour t; d = dt_dayofweek t in
      \<lparr>d_hour = Some h, d_day = Some (ts_day t), d_month = Some (ts_month t),
       d_year = Some (ts_year t), d_dayofweek = Some d,
       d_time_of_day = Some (time_label h),
       d_is_rush_hour = Some (flag ((h \<ge> 7 \<and> h \<le> 9 \<or> h \<ge> 16 \<and> h \<le> 19) \<and> d < 5)),
       d_is_weekend = Some (flag (d \<ge> 5)),
       d_weather_season = Some (str_int (r_weather r) @ ''_'' @ str_int (r_season r)),
       d_temp_bin = Some (pd_cut temp_bins temp_labels (r_temp r)),
       d_humidity_bin = Some (pd_cut humidity_bins level_labels (r_humidity r)),
       d_windspeed_bin = Some (pd_cut windspeed_bins level_labels (r_windspeed r)),
       d_temp_humidity = Some (float_mul P (r_temp r) (r_humidity r)),
       d_temp_windspeed = Some (float_mul P (r_temp r) (r_windspeed r))\<rparr>)"

definition enrich_row :: "pandas \<Rightarrow> raw_row \<Rightarrow> (timestamp \<times> derived) option" where
  "enrich_row P r =
     (case cell_stamp P (r_datetime r) of None \<Rightarrow> None | Some t \<Rightarrow> Some (t, derive P t r))"

text \<open>The converted \<^verbatim>\<open>datetime\<close> column, and the frame the assignments leave behind.\<close>

definition stamps :: "pandas \<Rightarrow> dtcol \<Rightarrow> timestamp list option" where
  "stamps P c = (case c of DtCol ts \<Rightarrow> Some ts | StrCol ss \<Rightarrow> those (map (to_datetime P) ss))"

definition rush_col :: "int list \<Rightarrow> int list \<Rightarrow> int list" where
  "rush_col hs ds =
     astype_int (and_s (or_s (and_s (ge_s hs 7) (le_s hs 9)) (and_s (ge_s hs 16) (le_s hs 19)))
                       (lt_s ds 5))"

definition filled :: "pandas \<Rightarrow> timestamp list \<Rightarrow> 'a frame_scheme \<Rightarrow> 'a frame_scheme" where
  "filled P ts f =
     f\<lparr>datetime := DtCol ts,
       hour := Some (map ts_hour ts),
       day := Some (map ts_day ts),
       month := Some (map ts_month ts),
       year := Some (map ts_year ts),
       dayofweek := Some (map dt_dayofweek ts),
       time_of_day := Some (map time_label (map ts_hour ts)),
       is_rush_hour := Some (rush_col (map ts_hour ts) (map dt_dayofweek ts)),
       is_weekend := Some (astype_int (ge_s (map dt_dayofweek ts) 5)),
       weather_season :=
         Some (map2 (@) (map (\<lambda>s. s @ ''_'') (map str_int (weather f))) (map str_int (season f))),
       temp_bin := Some (map (pd_cut temp_bins temp_labels) (temp f)),
       humidity_bin := Some (map (pd_cut humidity_bins level_labels) (humidity f)),
       windspeed_bin := Some (map (pd_cut windspeed_bins level_labels) (windspeed f)),
       temp_humidity := Some (map2 (float_mul P) (temp f) (humidity f)),
       temp_windspeed := Some (map2 (float_mul P) (temp f) (windspeed f))\<rparr>"

subsection \<open>Binning as the specification words it\<close>

text \<open>
  The specification's binning policy: every bin is closed on the left and open on the
  right, except the last, which is closed on both sides. \<open>spec_cut\<close> follows these
  words, to be compared with \<open>pd_cut\<close>.
\<close>

fun spec_cut :: "real list \<Rightarrow> string list \<Rightarrow> real \<Rightarrow> string option" where
  "spec_cut [lo, hi] [l] x = (if lo \<le> x \<and> x \<le> hi then Some l else None)"
| "spec_cut (lo # hi # bins) (l # labels) x =
     (if lo \<le> x \<and> x < hi then Some l else spec_cut (hi # bins) labels x)"
| "spec_cut bins labels x = None"

subsection \<open>Submission frames\<close>

text \<open>
  The submission cells build
  \<^verbatim>\<open>pd.DataFrame({'datetime': test['datetime'].astype(str), 'count': predictions})\<close>
  and then clip the \<^verbatim>\<open>count\<close> column. Both values of the dictionary are \<^verbatim>\<open>Series\<close>
  (the predictor returns one), each with the default row index \<open>0, 1, 2, \<dots>\<close>; the
  constructor aligns them on the union of their indexes and fills the positions a
  \<^verbatim>\<open>Series\<close> lacks with missing values, \<open>None\<close> here. The model takes the \<^verbatim>\<open>datetime\<close>
  series after \<^verbatim>\<open>astype(str)\<close>.
\<close>

record submission =
  sub_datetime :: "string option list"
  sub_count :: "real option list"

definition reindex :: "nat \<Rightarrow> 'c list \<Rightarrow> 'c option list" where
  "reindex n xs = map (\<lambda>i. if i < length xs then Some (xs ! i) else None) [0..<n]"

definition DataFrame :: "string list \<Rightarrow> real list \<Rightarrow> submission" where
  "DataFrame dts counts =
     (let n = max (length dts) (length counts)
      in \<lparr>sub_datetime = reindex n dts, sub_count = reindex n counts\<rparr>)"

text \<open>\<^verbatim>\<open>Series.clip(lower=lo)\<close>: a value below \<open>lo\<close> becomes \<open>lo\<close>, a missing value stays.\<close>

definition clip_lower :: "real \<Rightarrow> real option list \<Rightarrow> real option list" where
  "clip_lower lo xs = map (map_option (\<lambda>x. if x < lo then lo else x)) xs"

definition initial_submission :: "string list \<Rightarrow> real list \<Rightarrow> submission" where
  "initial_submission dts initial_predictions =
     (let s = DataFrame dts initial_predictions
      in s\<lparr>sub_count := clip_lower 0 (sub_count s)\<rparr>)"

text \<open>
  \<^verbatim>\<open>advanced_submission\<close> (and \<^verbatim>\<open>log_submission\<close>) is built the same way from the
  predictions already mapped back by \<^verbatim>\<open>np.expm1\<close>.
\<close>

definition advanced_submission :: "string list \<Rightarrow> real list \<Rightarrow> submission" where
  "advanced_submission dts advanced_predictions_original_scale =
     (let s = DataFrame dts advanced_predictions_original_scale
      in s\<lparr>sub_count := clip_lower 0 (sub_count s)\<rparr>)"

subsection \<open>A concrete instance of the library parameters\<close>

text \<open>
  For the examples: \<^verbatim>\<open>pd.to_datetime\<close> restricted to the format of the dataset's
  \<^verbatim>\<open>datetime\<close> column, \<^verbatim>\<open>YYYY-MM-DD HH:MM:SS\<close>, and the exact product.
\<close>

definition digit_of :: "char \<Rightarrow> int option" where
  "digit_of c = (let n = (of_char c :: nat) in if 48 \<le> n \<and> n \<le> 57 then Some (int n - 48) else None)"

definition number :: "string \<Rightarrow> int option" where
  "number cs = map_option (foldl (\<lambda>a d. 10 * a + d) 0) (those (map digit_of cs))"

definition iso_datetime :: "string \<Rightarrow> timestamp option" where
  "iso_datetime s =
     (if length s = 19 \<and> s ! 4 = CHR ''-'' \<and> s ! 7 = CHR ''-'' \<and> s ! 10 = CHR '' '' \<and>
         s ! 13 = CHR '':'' \<and> s ! 16 = CHR '':''
      then (case (number (take 4 s), number (take 2 (drop 5 s)), number (take 2 (drop 8 s)),
                  number (take 2 (drop 11 s)), number (take 2 (drop 14 s)),
                  number (take 2 (drop 17 s))) of
              (Some y, Some m, Some d, Some h, Some mi, Some se) \<Rightarrow>
                if 1 \<le> m \<and> m \<le> 12 \<and> 1 \<le> d \<and> d \<le> 31 \<and> h \<le> 23 \<and> mi \<le> 59 \<and> se \<le> 59
                then Some \<lparr>ts_year = y, ts_month = m, ts_day = d, ts_hour = h,
                           ts_minute = mi, ts_second = se\<rparr>
                else None
            | _ \<Rightarrow> None)
      else None)"

definition iso_pandas :: pandas where
  "iso_pandas = \<lparr>to_datetime = iso_datetime, float_mul = (*)\<rparr>"

subsection \<open>Example inputs\<close>

text \<open>A frame as \<^verbatim>\<open>read_csv\<close> delivers it: the raw columns only.\<close>

definition raw_frame ::
  "string list \<Rightarrow> int list \<Rightarrow> int list \<Rightarrow> real list \<Rightarrow> real list \<Rightarrow> real list \<Rightarrow> frame" where
  "raw_frame dts ss ws ts hs vs =
     \<lparr>datetime = StrCol dts, season = ss, weather = ws, temp = ts, humidity = hs,
      windspeed = vs, hour = None, day = None, month = None, year = None, dayofweek = None,
      time_of_day = None, is_rush_hour = None, is_weekend = None, weather_season = None,
      temp_bin = None, humidity_bin = None, windspeed_bin = None, temp_humidity = None,
      temp_windspeed = None\<rparr>"

text \<open>The first row of the training data, and a row with humidity 0.\<close>

definition first_rows :: frame where
  "first_rows =
     raw_frame [''2011-01-01 00:00:00'', ''2011-03-10 05:00:00''] [1, 1] [1, 3]
       [9.84, 16.4] [81, 0] [0, 17]"

text \<open>Friday and Saturday, 7 o'clock.\<close>

definition friday_saturday :: frame where
  "friday_saturday =
     raw_frame [''2011-01-07 07:00:00'', ''2011-01-08 07:00:00''] [1, 1] [1, 2]
       [8.2, 10] [86, 40] [0, 50]"

text \<open>A row whose season and weather are outside \<open>{1, 2, 3, 4}\<close>.\<close>

definition out_of_domain :: frame where
  "out_of_domain = raw_frame [''2011-01-07 07:00:00''] [7] [-2] [10] [50] [50]"

text \<open>Values on the edges of the bins.\<close>

definition on_the_edges :: frame where
  "on_the_edges =
     raw_frame [''2012-07-02 12:00:00'', ''2012-07-02 13:00:00'', ''2012-07-02 14:00:00'']
       [3, 3, 3] [1, 1, 2] [10, 50, -20] [25, 100, 0] [10, 100, 0]"

subsection \<open>What a call of \<^verbatim>\<open>feature_engineering\<close> computes\<close>

lemma those_map_nth:
  "those (map f xs) = Some ys \<Longrightarrow>
   length ys = length xs \<and> (\<forall>i<length xs. f (xs ! i) = Some (ys ! i))"
proof (induction xs arbitrary: ys)
  case Nil
  then show ?case by simp
next
  case (Cons x xs)
  from Cons.prems obtain y zs where y: "f x = Some y" and zs: "those (map f xs) = Some zs"
    and ys: "ys = y # zs"
    by (auto split: option.splits)
  from Cons.IH [OF zs] y ys show ?case
    by (auto simp: nth_Cons split: nat.splits)
qed

lemma stamps_nth:
  assumes "stamps P c = Some ts"
  shows "length ts = dt_len c" and "i < dt_len c \<Longrightarrow> cell_stamp P (dt_cell c i) = Some (ts ! i)"
  using assms those_map_nth [of "to_datetime P" _ ts]
  by (cases c; simp add: stamps_def)+

lemmas stmt_defs =
  assignments_def conv_datetime_def set_hour_def set_day_def set_month_def set_year_def
  set_dayofweek_def set_time_of_day_def set_is_rush_hour_def set_is_weekend_def
  set_weather_season_def set_temp_bin_def set_humidity_bin_def set_windspeed_bin_def
  set_temp_humidity_def set_temp_windspeed_def and_then_def col_def dt_def

text \<open>
  The call copies the frame, fails with \<^verbatim>\<open>ValueError\<close> if the \<^verbatim>\<open>datetime\<close> column does
  not convert, and otherwise fills the copy.
\<close>

lemma feature_engineering_eq:
  "feature_engineering P (h, df) =
     (case stamps P (datetime (h ! df)) of
        None \<Rightarrow> Inl (ValueError, h @ [h ! df])
      | Some ts \<Rightarrow> Inr (h @ [filled P ts (h ! df)], length h))"
  by (cases "datetime (h ! df)")
     (simp_all add: feature_engineering_def copy_df_def on_df_def stmt_defs stamps_def
        filled_def rush_col_def split: option.splits)

lemma enrich_eq:
  "enrich P f =
     (case stamps P (datetime f) of None \<Rightarrow> Inl ValueError | Some ts \<Rightarrow> Inr (filled P ts f))"
  by (simp add: enrich_def feature_engineering_eq split: option.splits)

lemma enrich_Inr:
  "enrich P f = Inr g \<longleftrightarrow> (\<exists>ts. stamps P (datetime f) = Some ts \<and> g = filled P ts f)"
  by (auto simp: enrich_eq split: option.splits)

lemma nrows_filled: "nrows (filled P ts f) = length ts"
  by (simp add: nrows_def filled_def)

lemma rush_col_nth:
  "length ds = length hs \<Longrightarrow> i < length hs \<Longrightarrow>
   rush_col hs ds ! i =
     flag ((hs ! i \<ge> 7 \<and> hs ! i \<le> 9 \<or> hs ! i \<ge> 16 \<and> hs ! i \<le> 19) \<and> ds ! i < 5)"
  by (simp add: rush_col_def astype_int_def and_s_def or_s_def ge_s_def le_s_def lt_s_def
      flag_def)

text \<open>Row \<open>i\<close> of the filled frame is computed from row \<open>i\<close> of the argument alone.\<close>

lemma derived_at_filled:
  assumes "wf_frame f" and "length ts = nrows f" and "i < nrows f"
  shows "derived_at (filled P ts f) i = derive P (ts ! i) (raw_at f i)"
  using assms
  by (simp add: derived_at_def derive_def raw_at_def cell_def filled_def wf_frame_def Let_def
      rush_col_nth astype_int_def ge_s_def flag_def)

lemma wf_filled:
  assumes "wf_frame f" and "length ts = nrows f"
  shows "wf_frame (filled P ts f)"
  using assms
  by (simp add: wf_frame_def Let_def nrows_def filled_def has_len_def rush_col_def
      astype_int_def and_s_def or_s_def ge_s_def le_s_def lt_s_def)

lemma enrich_row_at:
  assumes "enrich P f = Inr g" and "wf_frame f" and "i < nrows f"
  shows "\<exists>t. derived_at g i = derive P t (raw_at f i)"
proof -
  from assms(1) obtain ts where ts: "stamps P (datetime f) = Some ts" and g: "g = filled P ts f"
    by (auto simp: enrich_Inr)
  have "length ts = nrows f"
    using stamps_nth(1) [OF ts] by (simp add: nrows_def)
  from derived_at_filled [OF assms(2) this assms(3)] g show ?thesis by blast
qed

lemmas eval_defs =
  raw_frame_def iso_pandas_def iso_datetime_def number_def digit_of_def stamps_def
  wf_frame_def nrows_def has_len_def

subsection \<open>Evaluated examples\<close>

lemma first_rows_wf: "wf_frame first_rows"
  by (simp add: first_rows_def eval_defs)

lemma first_rows_rows: "nrows first_rows = 2"
  by (simp add: first_rows_def eval_defs)

lemma first_rows_stamps:
  "stamps iso_pandas (datetime first_rows) =
     Some [\<lparr>ts_year = 2011, ts_month = 1, ts_day = 1, ts_hour = 0, ts_minute = 0, ts_second = 0\<rparr>,
           \<lparr>ts_year = 2011, ts_month = 3, ts_day = 10, ts_hour = 5, ts_minute = 0, ts_second = 0\<rparr>]"
  by (simp add: first_rows_def eval_defs)

lemma first_rows_run:
  "enrich iso_pandas first_rows = Inr (filled iso_pandas
     [\<lparr>ts_year = 2011, ts_month = 1, ts_day = 1, ts_hour = 0, ts_minute = 0, ts_second = 0\<rparr>,
      \<lparr>ts_year = 2011, ts_month = 3, ts_day = 10, ts_hour = 5, ts_minute = 0, ts_second = 0\<rparr>]
     first_rows)"
  by (simp add: enrich_eq first_rows_stamps)

lemma friday_saturday_run:
  "enrich iso_pandas friday_saturday = Inr (filled iso_pandas
     [\<lparr>ts_year = 2011, ts_month = 1, ts_day = 7, ts_hour = 7, ts_minute = 0, ts_second = 0\<rparr>,
      \<lparr>ts_year = 2011, ts_month = 1, ts_day = 8, ts_hour = 7, ts_minute = 0, ts_second = 0\<rparr>]
     friday_saturday)"
  by (simp add: enrich_eq friday_saturday_def eval_defs)

lemma friday_saturday_rows: "nrows friday_saturday = 2"
  by (simp add: friday_saturday_def eval_defs)

lemma friday_saturday_flags:
  "hour (filled iso_pandas
     [\<lparr>ts_year = 2011, ts_month = 1, ts_day = 7, ts_hour = 7, ts_minute = 0, ts_second = 0\<rparr>,
      \<lparr>ts_year = 2011, ts_month = 1, ts_day = 8, ts_hour = 7, ts_minute = 0, ts_second = 0\<rparr>]
     friday_saturday) = Some [7, 7]"
  "dayofweek (filled iso_pandas
     [\<lparr>ts_year = 2011, ts_month = 1, ts_day = 7, ts_hour = 7, ts_minute = 0, ts_second = 0\<rparr>,
      \<lparr>ts_year = 2011, ts_month = 1, ts_day = 8, ts_hour = 7, ts_minute = 0, ts_second = 0\<rparr>]
     friday_saturday) = Some [4, 5]"
  "is_rush_hour (filled iso_pandas
     [\<lparr>ts_year = 2011, ts_month = 1, ts_day = 7, ts_hour = 7, ts_minute = 0, ts_second = 0\<rparr>,
      \<lparr>ts_year = 2011, ts_month = 1, ts_day = 8, ts_hour = 7, ts_minute = 0, ts_second = 0\<rparr>]
     friday_saturday) = Some [1, 0]"
  "is_weekend (filled iso_pandas
     [\<lparr>ts_year = 2011, ts_month = 1, ts_day = 7, ts_hour = 7, ts_minute = 0, ts_second = 0\<rparr>,
      \<lparr>ts_year = 2011, ts_month = 1, ts_day = 8, ts_hour = 7, ts_minute = 0, ts_second = 0\<rparr>]
     friday_saturday) = Some [0, 1]"
  by (simp_all add: filled_def dt_dayofweek_def month_term_def rush_col_def astype_int_def
      and_s_def or_s_def ge_s_def le_s_def lt_s_def)

lemma on_the_edges_run:
  "enrich iso_pandas on_the_edges = Inr (filled iso_pandas
     [\<lparr>ts_year = 2012, ts_month = 7, ts_day = 2, ts_hour = 12, ts_minute = 0, ts_second = 0\<rparr>,
      \<lparr>ts_year = 2012, ts_month = 7, ts_day = 2, ts_hour = 13, ts_minute = 0, ts_second = 0\<rparr>,
      \<lparr>ts_year = 2012, ts_month = 7, ts_day = 2, ts_hour = 14, ts_minute = 0, ts_second = 0\<rparr>]
     on_the_edges)"
  by (simp add: enrich_eq on_the_edges_def eval_defs)

lemma on_the_edges_wf: "wf_frame on_the_edges"
  by (simp add: on_the_edges_def eval_defs)

lemma on_the_edges_rows: "nrows on_the_edges = 3"
  by (simp add: on_the_edges_def eval_defs)

lemma out_of_domain_wf: "wf_frame out_of_domain"
  by (simp add: out_of_domain_def eval_defs)

subsection \<open>Length, order and independence of rows\<close>

text \<open>
  Claim C2. For a well-formed frame whose \<^verbatim>\<open>datetime\<close> column converts, \<open>enrich\<close>
  returns a frame with the same number of rows, the raw columns unchanged and so in the
  same order, and in every row the timestamp and all assigned fields are what
  \<open>enrich_row\<close> computes from the raw fields of that same row.
\<close>

theorem enrich_rowwise:
  assumes "wf_frame f" and "stamps P (datetime f) = Some ts"
  shows "\<exists>g. enrich P f = Inr g \<and> wf_frame g \<and> nrows g = nrows f \<and>
           datetime g = DtCol ts \<and> season g = season f \<and> weather g = weather f \<and>
           temp g = temp f \<and> humidity g = humidity f \<and> windspeed g = windspeed f \<and>
           frame.more g = frame.more f \<and>
           (\<forall>i<nrows f. enrich_row P (raw_at f i) = Some (ts ! i, derived_at g i))"
proof -
  let ?g = "filled P ts f"
  have len: "length ts = nrows f"
    using stamps_nth(1) [OF assms(2)] by (simp add: nrows_def)
  have run: "enrich P f = Inr ?g"
    using assms(2) by (simp add: enrich_eq)
  have raw: "datetime ?g = DtCol ts" "season ?g = season f" "weather ?g = weather f"
    "temp ?g = temp f" "humidity ?g = humidity f" "windspeed ?g = windspeed f"
    "frame.more ?g = frame.more f"
    by (simp_all add: filled_def)
  have rows: "enrich_row P (raw_at f i) = Some (ts ! i, derived_at ?g i)" if "i < nrows f" for i
  proof -
    have "cell_stamp P (r_datetime (raw_at f i)) = Some (ts ! i)"
      using stamps_nth(2) [OF assms(2)] that by (simp add: raw_at_def nrows_def)
    then show ?thesis
      using derived_at_filled [OF assms(1) len that] by (simp add: enrich_row_def)
  qed
  from run wf_filled [OF assms(1) len] len raw rows show ?thesis
    by (intro exI [of _ ?g]) (simp add: nrows_filled)
qed

theorem enrich_rowwise_witness:
  "wf_frame first_rows \<and>
   stamps iso_pandas (datetime first_rows) =
     Some [\<lparr>ts_year = 2011, ts_month = 1, ts_day = 1, ts_hour = 0, ts_minute = 0, ts_second = 0\<rparr>,
           \<lparr>ts_year = 2011, ts_month = 3, ts_day = 10, ts_hour = 5, ts_minute = 0, ts_second = 0\<rparr>] \<and>
   (\<exists>g. enrich iso_pandas first_rows = Inr g \<and> nrows g = 2 \<and>
        season g = [1, 1] \<and> weather g = [1, 3] \<and> temp g = [9.84, 16.4] \<and>
        humidity g = [81, 0] \<and> windspeed g = [0, 17] \<and>
        (\<forall>i<2. enrich_row iso_pandas (raw_at first_rows i) \<noteq> None \<and>
           map_option snd (enrich_row iso_pandas (raw_at first_rows i)) = Some (derived_at g i)))"
  using enrich_rowwise [OF first_rows_wf first_rows_stamps]
  by (auto simp: first_rows_wf first_rows_stamps) (auto simp: first_rows_def eval_defs)

subsection \<open>Rush hour and weekend\<close>

text \<open>
  Claim C3. In every row of the enriched frame, \<^verbatim>\<open>is_rush_hour\<close> is 1 (true) or 0, and it
  is 1 exactly when \<^verbatim>\<open>dayofweek\<close> is below 5 and \<^verbatim>\<open>hour\<close> lies in 7..9 or in 16..19,
  bounds included.
\<close>

theorem rush_hour_iff:
  assumes "enrich P f = Inr g" and "i < nrows f"
  shows "\<exists>h d r. cell (hour g) i = Some h \<and> cell (dayofweek g) i = Some d \<and>
           cell (is_rush_hour g) i = Some r \<and> (r = 0 \<or> r = 1) \<and>
           (r = 1 \<longleftrightarrow> d < 5 \<and> (7 \<le> h \<and> h \<le> 9 \<or> 16 \<le> h \<and> h \<le> 19))"
proof -
  from assms(1) obtain ts where ts: "stamps P (datetime f) = Some ts" and g: "g = filled P ts f"
    by (auto simp: enrich_Inr)
  have len: "i < length ts"
    using stamps_nth(1) [OF ts] assms(2) by (simp add: nrows_def)
  then show ?thesis
    by (auto simp: g filled_def cell_def rush_col_nth flag_def)
qed

text \<open>
  Friday 7 o'clock (\<open>hour = 7\<close>, \<open>dayofweek = 4\<close>) is rush hour; Saturday 7 o'clock
  (\<open>hour = 7\<close>, \<open>dayofweek = 5\<close>) is not.
\<close>

theorem rush_hour_iff_witness:
  "0 < nrows friday_saturday \<and>
   (\<exists>g. enrich iso_pandas friday_saturday = Inr g \<and>
     hour g = Some [7, 7] \<and> dayofweek g = Some [4, 5] \<and> is_rush_hour g = Some [1, 0] \<and>
     (\<exists>h d r. cell (hour g) 0 = Some h \<and> cell (dayofweek g) 0 = Some d \<and>
           cell (is_rush_hour g) 0 = Some r \<and> (r = 0 \<or> r = 1) \<and>
           (r = 1 \<longleftrightarrow> d < 5 \<and> (7 \<le> h \<and> h \<le> 9 \<or> 16 \<le> h \<and> h \<le> 19))))"
proof -
  have n: "0 < nrows friday_saturday"
    by (simp add: friday_saturday_rows)
  from rush_hour_iff [OF friday_saturday_run n] n show ?thesis
    by (simp add: friday_saturday_run friday_saturday_flags)
qed

text \<open>
  Claim C10. In every row of the enriched frame, \<^verbatim>\<open>is_weekend\<close> is 1 exactly when
  \<^verbatim>\<open>dayofweek\<close> is at least 5, \<^verbatim>\<open>is_rush_hour\<close> is 1 only when \<^verbatim>\<open>dayofweek\<close> is below 5,
  and so the two flags are never both 1.
\<close>

theorem rush_hour_excludes_weekend:
  assumes "enrich P f = Inr g" and "i < nrows f"
  shows "\<exists>d r w. cell (dayofweek g) i = Some d \<and> cell (is_rush_hour g) i = Some r \<and>
           cell (is_weekend g) i = Some w \<and> (w = 1 \<longleftrightarrow> d \<ge> 5) \<and> (r = 1 \<longrightarrow> d < 5) \<and>
           \<not> (r = 1 \<and> w = 1)"
proof -
  from assms(1) obtain ts where ts: "stamps P (datetime f) = Some ts" and g: "g = filled P ts f"
    by (auto simp: enrich_Inr)
  have len: "i < length ts"
    using stamps_nth(1) [OF ts] assms(2) by (simp add: nrows_def)
  then show ?thesis
    by (auto simp: g filled_def cell_def rush_col_nth flag_def astype_int_def ge_s_def)
qed

theorem rush_hour_excludes_weekend_witness:
  "1 < nrows friday_saturday \<and>
   (\<exists>g. enrich iso_pandas friday_saturday = Inr g \<and>
      is_rush_hour g = Some [1, 0] \<and> is_weekend g = Some [0, 1] \<and>
      (\<exists>d r w. cell (dayofweek g) 1 = Some d \<and> cell (is_rush_hour g) 1 = Some r \<and>
           cell (is_weekend g) 1 = Some w \<and> (w = 1 \<longleftrightarrow> d \<ge> 5) \<and> (r = 1 \<longrightarrow> d < 5) \<and>
           \<not> (r = 1 \<and> w = 1)))"
proof -
  have i: "1 < nrows friday_saturday"
    by (simp add: friday_saturday_rows)
  from rush_hour_excludes_weekend [OF friday_saturday_run i] i show ?thesis
    by (simp add: friday_saturday_run friday_saturday_flags)
qed

subsection \<open>Binning\<close>

text \<open>
  On strictly increasing edges \<open>pd_cut\<close> selects the bin \<open>k\<close> with
  \<open>bins ! k < x \<le> bins ! (k + 1)\<close>: every bin is open on the left and closed on the
  right.
\<close>

lemma searchsorted_left_below:
  "j < searchsorted_left bins x \<Longrightarrow> bins ! j < x"
  unfolding searchsorted_left_def
  by (metis nth_mem set_takeWhileD takeWhile_nth)

lemma searchsorted_left_stop:
  "searchsorted_left bins x < length bins \<Longrightarrow> x \<le> bins ! searchsorted_left bins x"
  unfolding searchsorted_left_def
  using nth_length_takeWhile [of "\<lambda>b. b < x" bins] by simp

lemma searchsorted_left_le: "searchsorted_left bins x \<le> length bins"
  unfolding searchsorted_left_def by (rule length_takeWhile_le)

lemma searchsorted_left_unique:
  assumes "sorted_wrt (<) bins" and "Suc k < length bins"
    and "bins ! k < x" and "x \<le> bins ! Suc k"
  shows "searchsorted_left bins x = Suc k"
proof -
  let ?n = "searchsorted_left bins x"
  have mono: "bins ! i \<le> bins ! j" if "i \<le> j" "j < length bins" for i j
  proof (cases "i = j")
    case True
    then show ?thesis by simp
  next
    case False
    with that have "i < j" by simp
    with assms(1) that(2) have "bins ! i < bins ! j"
      by (simp add: sorted_wrt_nth_less)
    then show ?thesis by simp
  qed
  have "\<not> ?n \<le> k"
  proof
    assume le: "?n \<le> k"
    with assms(2) have "?n < length bins" by simp
    then have "x \<le> bins ! ?n" by (rule searchsorted_left_stop)
    moreover have "bins ! ?n \<le> bins ! k" using le assms(2) by (intro mono) simp_all
    ultimately show False using assms(3) by simp
  qed
  moreover have "\<not> Suc k < ?n"
  proof
    assume "Suc k < ?n"
    then have "bins ! Suc k < x" by (rule searchsorted_left_below)
    with assms(4) show False by simp
  qed
  ultimately show ?thesis by simp
qed

lemma pd_cut_interval:
  assumes "sorted_wrt (<) bins"
  shows "pd_cut bins labels x = Some l \<longleftrightarrow>
           (\<exists>k. Suc k < length bins \<and> bins ! k < x \<and> x \<le> bins ! Suc k \<and> l = labels ! k)"
proof
  assume c: "pd_cut bins labels x = Some l"
  let ?n = "searchsorted_left bins x"
  from c have n: "?n \<noteq> 0" "?n \<noteq> length bins" and l: "l = labels ! (?n - 1)"
    by (auto simp: pd_cut_def Let_def split: if_splits)
  from n searchsorted_left_le [of bins x] have lt: "?n < length bins" by simp
  from n(1) have "bins ! (?n - 1) < x" by (intro searchsorted_left_below) simp
  moreover from lt have "x \<le> bins ! ?n" by (rule searchsorted_left_stop)
  ultimately show "\<exists>k. Suc k < length bins \<and> bins ! k < x \<and> x \<le> bins ! Suc k \<and> l = labels ! k"
    using n(1) lt l by (intro exI [of _ "?n - 1"]) simp
next
  assume "\<exists>k. Suc k < length bins \<and> bins ! k < x \<and> x \<le> bins ! Suc k \<and> l = labels ! k"
  then obtain k where k: "Suc k < length bins" "bins ! k < x" "x \<le> bins ! Suc k" "l = labels ! k"
    by blast
  from searchsorted_left_unique [OF assms k(1-3)] k show "pd_cut bins labels x = Some l"
    by (simp add: pd_cut_def)
qed

lemma bins_increasing:
  "sorted_wrt (<) temp_bins" "sorted_wrt (<) humidity_bins" "sorted_wrt (<) windspeed_bins"
  by (simp_all add: temp_bins_def humidity_bins_def windspeed_bins_def)

text \<open>The three tables of the notebook, bin by bin.\<close>

lemma pd_cut_temp:
  "pd_cut temp_bins temp_labels x =
     (if -20 < x \<and> x \<le> 0 then Some ''very_cold''
      else if 0 < x \<and> x \<le> 10 then Some ''cold''
      else if 10 < x \<and> x \<le> 20 then Some ''mild''
      else if 20 < x \<and> x \<le> 30 then Some ''warm''
      else if 30 < x \<and> x \<le> 50 then Some ''hot''
      else None)"
  by (simp add: pd_cut_def searchsorted_left_def temp_bins_def temp_labels_def)

lemma pd_cut_humidity:
  "pd_cut humidity_bins level_labels x =
     (if 0 < x \<and> x \<le> 25 then Some ''low''
      else if 25 < x \<and> x \<le> 50 then Some ''medium''
      else if 50 < x \<and> x \<le> 75 then Some ''high''
      else if 75 < x \<and> x \<le> 100 then Some ''very_high''
      else None)"
  by (simp add: pd_cut_def searchsorted_left_def humidity_bins_def level_labels_def)

lemma pd_cut_windspeed:
  "pd_cut windspeed_bins level_labels x =
     (if 0 < x \<and> x \<le> 10 then Some ''low''
      else if 10 < x \<and> x \<le> 20 then Some ''medium''
      else if 20 < x \<and> x \<le> 30 then Some ''high''
      else if 30 < x \<and> x \<le> 100 then Some ''very_high''
      else None)"
  by (simp add: pd_cut_def searchsorted_left_def windspeed_bins_def level_labels_def)

lemma bins_at:
  assumes "enrich P f = Inr g" and "wf_frame f" and "i < nrows f"
  shows "cell (temp_bin g) i = Some (pd_cut temp_bins temp_labels (temp f ! i))"
    and "cell (humidity_bin g) i = Some (pd_cut humidity_bins level_labels (humidity f ! i))"
    and "cell (windspeed_bin g) i = Some (pd_cut windspeed_bins level_labels (windspeed f ! i))"
proof -
  from enrich_row_at [OF assms] obtain t where t: "derived_at g i = derive P t (raw_at f i)" ..
  have "d_temp_bin (derived_at g i) = Some (pd_cut temp_bins temp_labels (temp f ! i))"
    "d_humidity_bin (derived_at g i) = Some (pd_cut humidity_bins level_labels (humidity f ! i))"
    "d_windspeed_bin (derived_at g i) = Some (pd_cut windspeed_bins level_labels (windspeed f ! i))"
    by (simp_all add: t derive_def raw_at_def Let_def)
  then show "cell (temp_bin g) i = Some (pd_cut temp_bins temp_labels (temp f ! i))"
    and "cell (humidity_bin g) i = Some (pd_cut humidity_bins level_labels (humidity f ! i))"
    and "cell (windspeed_bin g) i = Some (pd_cut windspeed_bins level_labels (windspeed f ! i))"
    by (simp_all add: derived_at_def)
qed

text \<open>
  Claim C4, as stated, fails. Were the bins open on the right and closed on the left,
  the temperature 10 would lie in \<open>mild\<close> and the temperature -20 in \<open>very_cold\<close>; the
  code puts 10 in \<open>cold\<close> and gives -20 no bin.
\<close>

theorem binning_not_right_open:
  "pd_cut temp_bins temp_labels 10 = Some ''cold'' \<and>
   spec_cut temp_bins temp_labels 10 = Some ''mild'' \<and>
   pd_cut temp_bins temp_labels (-20) = None \<and>
   spec_cut temp_bins temp_labels (-20) = Some ''very_cold''"
  by (simp add: pd_cut_def searchsorted_left_def temp_bins_def temp_labels_def)

text \<open>
  Claim C4, amended. The bins of \<^verbatim>\<open>temp\<close>, \<^verbatim>\<open>humidity\<close> and \<^verbatim>\<open>windspeed\<close> are open on the
  left and closed on the right: a value on an edge other than the lowest belongs to
  the bin that ends there (the lower of the two bins around an inner edge), and a value
  on the lowest edge or outside all bins has no bin.
\<close>

theorem binning_right_closed:
  assumes "enrich P f = Inr g" and "wf_frame f" and "i < nrows f"
  shows "cell (temp_bin g) i =
           Some (let x = temp f ! i in
                 if -20 < x \<and> x \<le> 0 then Some ''very_cold''
                 else if 0 < x \<and> x \<le> 10 then Some ''cold''
                 else if 10 < x \<and> x \<le> 20 then Some ''mild''
                 else if 20 < x \<and> x \<le> 30 then Some ''warm''
                 else if 30 < x \<and> x \<le> 50 then Some ''hot''
                 else None) \<and>
         cell (humidity_bin g) i =
           Some (let x = humidity f ! i in
                 if 0 < x \<and> x \<le> 25 then Some ''low''
                 else if 25 < x \<and> x \<le> 50 then Some ''medium''
                 else if 50 < x \<and> x \<le> 75 then Some ''high''
                 else if 75 < x \<and> x \<le> 100 then Some ''very_high''
                 else None) \<and>
         cell (windspeed_bin g) i =
           Some (let x = windspeed f ! i in
                 if 0 < x \<and> x \<le> 10 then Some ''low''
                 else if 10 < x \<and> x \<le> 20 then Some ''medium''
                 else if 20 < x \<and> x \<le> 30 then Some ''high''
                 else if 30 < x \<and> x \<le> 100 then Some ''very_high''
                 else None)"
  using bins_at [OF assms]
  by (simp add: pd_cut_temp pd_cut_humidity pd_cut_windspeed Let_def)

text \<open>The temperature 10 is binned as \<open>cold\<close>, 50 as \<open>hot\<close>, and -20 not at all.\<close>

theorem binning_right_closed_witness:
  "(\<exists>g. enrich iso_pandas on_the_edges = Inr g \<and> wf_frame on_the_edges \<and>
        nrows on_the_edges = 3 \<and> temp on_the_edges = [10, 50, -20] \<and>
        cell (temp_bin g) 0 = Some (Some ''cold'') \<and>
        cell (temp_bin g) 1 = Some (Some ''hot'') \<and>
        cell (temp_bin g) 2 = Some None \<and>
        cell (humidity_bin g) 0 = Some (Some ''low'') \<and>
        cell (windspeed_bin g) 1 = Some (Some ''very_high''))"
  using binning_right_closed [OF on_the_edges_run on_the_edges_wf, of 0]
    binning_right_closed [OF on_the_edges_run on_the_edges_wf, of 1]
    binning_right_closed [OF on_the_edges_run on_the_edges_wf, of 2]
  by (simp add: on_the_edges_run on_the_edges_wf on_the_edges_rows)
     (simp add: on_the_edges_def raw_frame_def)

text \<open>
  Claim C9. A row whose humidity is exactly 0 gets a missing \<^verbatim>\<open>humidity_bin\<close>, and a row
  whose windspeed is exactly 0 a missing \<^verbatim>\<open>windspeed_bin\<close>: the lowest edge 0 belongs to
  no bin, so neither is labelled \<open>low\<close>.
\<close>

theorem zero_has_no_bin:
  assumes "enrich P f = Inr g" and "wf_frame f" and "i < nrows f"
  shows "(humidity f ! i = 0 \<longrightarrow> cell (humidity_bin g) i = Some None) \<and>
         (windspeed f ! i = 0 \<longrightarrow> cell (windspeed_bin g) i = Some None)"
  using bins_at(2,3) [OF assms]
  by (simp add: pd_cut_def searchsorted_left_def humidity_bins_def windspeed_bins_def)

theorem zero_has_no_bin_witness:
  "wf_frame first_rows \<and> nrows first_rows = 2 \<and>
   windspeed first_rows ! 0 = 0 \<and> humidity first_rows ! 1 = 0 \<and>
   (\<exists>g. enrich iso_pandas first_rows = Inr g \<and>
        cell (windspeed_bin g) 0 = Some None \<and> cell (humidity_bin g) 1 = Some None \<and>
        cell (humidity_bin g) 0 = Some (Some ''very_high''))"
proof -
  have z: "windspeed first_rows ! 0 = 0" "humidity first_rows ! Suc 0 = 0"
    "humidity first_rows ! 0 = 81"
    by (simp_all add: first_rows_def eval_defs)
  have "cell (humidity_bin (filled iso_pandas ts first_rows)) 0 = Some (Some ''very_high'')" for ts
    by (simp add: filled_def cell_def z pd_cut_def searchsorted_left_def humidity_bins_def
        level_labels_def first_rows_def raw_frame_def)
  with zero_has_no_bin [OF first_rows_run first_rows_wf, of 0]
    zero_has_no_bin [OF first_rows_run first_rows_wf, of 1]
  show ?thesis
    by (simp add: first_rows_run first_rows_wf first_rows_rows z)
qed

subsection \<open>Season and weather are not checked\<close>

text \<open>
  Claim C5, as stated, fails: a row with season 7 and weather -2 raises nothing and is
  enriched like any other, with \<^verbatim>\<open>weather_season\<close> \<open>-2_7\<close>.
\<close>

theorem enrich_accepts_out_of_domain:
  "enrich iso_pandas out_of_domain =
     Inr \<lparr>datetime = DtCol [\<lparr>ts_year = 2011, ts_month = 1, ts_day = 7, ts_hour = 7,
                              ts_minute = 0, ts_second = 0\<rparr>],
          season = [7], weather = [-2], temp = [10], humidity = [50], windspeed = [50],
          hour = Some [7], day = Some [7], month = Some [1], year = Some [2011],
          dayofweek = Some [4], time_of_day = Some [''morning''], is_rush_hour = Some [1],
          is_weekend = Some [0], weather_season = Some [''-2_7''],
          temp_bin = Some [Some ''cold''], humidity_bin = Some [Some ''medium''],
          windspeed_bin = Some [Some ''very_high''], temp_humidity = Some [500],
          temp_windspeed = Some [500]\<rparr>"
  by (simp add: enrich_eq out_of_domain_def eval_defs filled_def dt_dayofweek_def month_term_def rush_col_def
      astype_int_def and_s_def or_s_def ge_s_def le_s_def lt_s_def time_label_def str_int_def
      digit_char_def pd_cut_def searchsorted_left_def temp_bins_def temp_labels_def
      humidity_bins_def windspeed_bins_def level_labels_def)

text \<open>
  Claim C5, amended. \<open>enrich\<close> does not check the range of \<^verbatim>\<open>season\<close> or \<^verbatim>\<open>weather\<close> and
  has no range error. Its only failure is the \<^verbatim>\<open>ValueError\<close> of a \<^verbatim>\<open>datetime\<close> column that
  does not convert; otherwise it succeeds for any integers, keeps both columns as they
  are, and sets \<^verbatim>\<open>weather_season\<close> to the decimal text of \<^verbatim>\<open>weather\<close>, an underscore and
  the decimal text of \<^verbatim>\<open>season\<close>.
\<close>

theorem enrich_no_range_check:
  assumes "wf_frame f"
  shows "(stamps P (datetime f) = None \<longrightarrow> enrich P f = Inl ValueError) \<and>
         (stamps P (datetime f) \<noteq> None \<longrightarrow>
            (\<exists>g. enrich P f = Inr g \<and> season g = season f \<and> weather g = weather f \<and>
               (\<forall>i<nrows f. cell (weather_season g) i =
                                Some (str_int (weather f ! i) @ ''_'' @ str_int (season f ! i)))))"
proof (intro conjI impI)
  assume "stamps P (datetime f) = None"
  then show "enrich P f = Inl ValueError"
    by (simp add: enrich_eq)
next
  assume "stamps P (datetime f) \<noteq> None"
  then obtain ts where ts: "stamps P (datetime f) = Some ts" by blast
  let ?g = "filled P ts f"
  have run: "enrich P f = Inr ?g"
    by (simp add: enrich_eq ts)
  have "cell (weather_season ?g) i = Some (str_int (weather f ! i) @ ''_'' @ str_int (season f ! i))"
    if "i < nrows f" for i
    using that assms by (simp add: filled_def cell_def wf_frame_def Let_def)
  with run show "\<exists>g. enrich P f = Inr g \<and> season g = season f \<and> weather g = weather f \<and>
               (\<forall>i<nrows f. cell (weather_season g) i =
                                Some (str_int (weather f ! i) @ ''_'' @ str_int (season f ! i)))"
    by (intro exI [of _ ?g]) (simp add: filled_def)
qed

theorem enrich_no_range_check_witness:
  "wf_frame out_of_domain \<and> stamps iso_pandas (datetime out_of_domain) \<noteq> None \<and>
   season out_of_domain = [7] \<and> weather out_of_domain = [-2] \<and>
   (\<exists>g. enrich iso_pandas out_of_domain = Inr g \<and> season g = [7] \<and> weather g = [-2] \<and>
        cell (weather_season g) 0 = Some ''-2_7'')"
proof -
  have s: "stamps iso_pandas (datetime out_of_domain) \<noteq> None"
    by (simp add: out_of_domain_def eval_defs)
  have v: "season out_of_domain = [7]" "weather out_of_domain = [-2]" "nrows out_of_domain = 1"
    by (simp_all add: out_of_domain_def eval_defs)
  from enrich_no_range_check [OF out_of_domain_wf, of iso_pandas] s
  obtain g where "enrich iso_pandas out_of_domain = Inr g" "season g = [7]" "weather g = [-2]"
    "cell (weather_season g) 0 = Some (str_int (-2) @ ''_'' @ str_int 7)"
    by (auto simp: v)
  then show ?thesis
    using out_of_domain_wf s v by (auto simp: str_int_def digit_char_def)
qed

subsection \<open>The argument is left alone\<close>

text \<open>
  Claim C7. A call of \<^verbatim>\<open>feature_engineering\<close> changes no frame that exists before the
  call, the argument included, whether it returns or raises: the store after the call
  begins with the store before it. When it returns, the result is a new frame, the only
  one added.
\<close>

theorem feature_engineering_keeps_store:
  assumes "df < length h"
  shows "case feature_engineering P (h, df) of
           Inl (e, h') \<Rightarrow> take (length h) h' = h \<and> h' ! df = h ! df
         | Inr (h', r) \<Rightarrow> take (length h) h' = h \<and> h' ! df = h ! df \<and>
                          r = length h \<and> length h' = Suc (length h)"
  using assms
  by (simp add: feature_engineering_eq nth_append split: option.splits)

theorem feature_engineering_keeps_store_witness:
  "(0::nat) < length [first_rows] \<and>
   (\<exists>h' r. feature_engineering iso_pandas ([first_rows], 0) = Inr (h', r) \<and>
      r = 1 \<and> length h' = 2 \<and> h' ! 0 = first_rows \<and>
      hour (h' ! 0) = None \<and> hour (h' ! 1) = Some [0, 5])"
proof -
  have "feature_engineering iso_pandas ([first_rows], 0) =
    Inr ([first_rows, filled iso_pandas
       [\<lparr>ts_year = 2011, ts_month = 1, ts_day = 1, ts_hour = 0, ts_minute = 0, ts_second = 0\<rparr>,
        \<lparr>ts_year = 2011, ts_month = 3, ts_day = 10, ts_hour = 5, ts_minute = 0, ts_second = 0\<rparr>]
       first_rows], 1)"
    by (simp add: feature_engineering_eq first_rows_stamps)
  moreover have "hour first_rows = None"
    by (simp add: first_rows_def eval_defs)
  ultimately show ?thesis
    using feature_engineering_keeps_store [of 0 "[first_rows]" iso_pandas]
    by (auto simp: filled_def)
qed

subsection \<open>Enriching twice\<close>

text \<open>
  Claim C8. Applying \<open>enrich\<close> to a frame \<open>enrich\<close> has returned returns that same
  frame: every assigned column is recomputed to the value it already has.
\<close>

theorem enrich_idempotent:
  assumes "enrich P f = Inr g"
  shows "enrich P g = Inr g"
proof -
  from assms obtain ts where ts: "stamps P (datetime f) = Some ts" and g: "g = filled P ts f"
    by (auto simp: enrich_Inr)
  have "stamps P (datetime g) = Some ts"
    by (simp add: g filled_def stamps_def)
  moreover have "filled P ts g = g"
    by (simp add: g filled_def)
  ultimately show ?thesis
    by (simp add: enrich_eq)
qed

theorem enrich_idempotent_witness:
  "\<exists>g. enrich iso_pandas first_rows = Inr g \<and> enrich iso_pandas g = Inr g \<and>
       hour g = Some [0, 5] \<and> dayofweek g = Some [5, 3] \<and> is_weekend g = Some [1, 0]"
  using first_rows_run enrich_idempotent [OF first_rows_run]
  by (simp add: filled_def dt_dayofweek_def month_term_def astype_int_def ge_s_def)

subsection \<open>The submission frame\<close>

lemma submission_eq:
  "initial_submission dts ps =
     \<lparr>sub_datetime = reindex (max (length dts) (length ps)) dts,
      sub_count = clip_lower 0 (reindex (max (length dts) (length ps)) ps)\<rparr>"
  "advanced_submission dts ps =
     \<lparr>sub_datetime = reindex (max (length dts) (length ps)) dts,
      sub_count = clip_lower 0 (reindex (max (length dts) (length ps)) ps)\<rparr>"
  by (simp_all add: initial_submission_def advanced_submission_def DataFrame_def Let_def)

lemma length_reindex: "length (reindex n xs) = n"
  by (simp add: reindex_def)

lemma reindex_nth: "i < n \<Longrightarrow> reindex n xs ! i = (if i < length xs then Some (xs ! i) else None)"
  by (simp add: reindex_def)

lemma reindex_same: "reindex (length xs) xs = map Some xs"
  by (rule nth_equalityI) (simp_all add: reindex_def)

lemma clip_lower_Some: "clip_lower 0 (map Some ps) = map (\<lambda>p. Some (max 0 p)) ps"
  by (simp add: clip_lower_def max_def)

lemma clip_lower_nth:
  "i < length xs \<Longrightarrow> clip_lower 0 xs ! i = map_option (max 0) (xs ! i)"
  by (simp add: clip_lower_def max_def) (metis max.commute max_def not_less)

text \<open>
  Claim C1. When there are as many predictions as timestamps, the submission frame has
  one row per prediction, in input order: row \<open>i\<close> holds timestamp \<open>i\<close> and the count
  \<open>max 0 p\<close> for prediction \<open>p\<close> number \<open>i\<close>. This holds for \<^verbatim>\<open>initial_submission\<close> and
  for \<^verbatim>\<open>advanced_submission\<close>. The predictions are finite floats.
\<close>

theorem submission_clips_at_zero:
  assumes "length dts = length ps"
  shows "initial_submission dts ps =
           \<lparr>sub_datetime = map Some dts, sub_count = map (\<lambda>p. Some (max 0 p)) ps\<rparr> \<and>
         advanced_submission dts ps =
           \<lparr>sub_datetime = map Some dts, sub_count = map (\<lambda>p. Some (max 0 p)) ps\<rparr>"
  using assms reindex_same [of dts] reindex_same [of ps]
  by (simp add: submission_eq clip_lower_Some)

text \<open>The predictions \<open>[-5.2, 0.0, 42.7]\<close> give the counts \<open>[0.0, 0.0, 42.7]\<close>.\<close>

theorem submission_clips_at_zero_witness:
  "length [''2011-01-20 00:00:00'', ''2011-01-20 01:00:00'', ''2011-01-20 02:00:00''] =
     length [-5.2, 0.0, 42.7 :: real] \<and>
   sub_count (initial_submission
     [''2011-01-20 00:00:00'', ''2011-01-20 01:00:00'', ''2011-01-20 02:00:00'']
     [-5.2, 0.0, 42.7]) = [Some 0.0, Some 0.0, Some 42.7] \<and>
   sub_count (advanced_submission
     [''2011-01-20 00:00:00'', ''2011-01-20 01:00:00'', ''2011-01-20 02:00:00'']
     [-5.2, 0.0, 42.7]) = [Some 0.0, Some 0.0, Some 42.7] \<and>
   sub_datetime (initial_submission
     [''2011-01-20 00:00:00'', ''2011-01-20 01:00:00'', ''2011-01-20 02:00:00'']
     [-5.2, 0.0, 42.7]) =
     [Some ''2011-01-20 00:00:00'', Some ''2011-01-20 01:00:00'', Some ''2011-01-20 02:00:00'']"
  using submission_clips_at_zero
    [of "[''2011-01-20 00:00:00'', ''2011-01-20 01:00:00'', ''2011-01-20 02:00:00'']"
        "[-5.2, 0.0, 42.7]"]
  by simp

text \<open>
  Claim C6, as stated, fails: three timestamps and two predictions raise nothing. The
  frame has three rows, and the count of the third is missing.
\<close>

theorem submission_no_length_check:
  "initial_submission
     [''2011-01-20 00:00:00'', ''2011-01-20 01:00:00'', ''2011-01-20 02:00:00''] [11.5, -3] =
   \<lparr>sub_datetime =
      [Some ''2011-01-20 00:00:00'', Some ''2011-01-20 01:00:00'', Some ''2011-01-20 02:00:00''],
    sub_count = [Some 11.5, Some 0, None]\<rparr>"
  by (simp add: initial_submission_def DataFrame_def reindex_def clip_lower_def upt_rec)

text \<open>
  Claim C6, amended. The submission cells have no length check and raise no error. The
  two series are aligned on the row index: the frame has as many rows as the longer
  one, row \<open>i\<close> holds timestamp \<open>i\<close> and the clipped prediction \<open>i\<close>, and a missing
  value where the shorter series has no row \<open>i\<close>.
\<close>

theorem submission_aligned:
  fixes dts :: "string list" and ps :: "real list"
  defines "n \<equiv> max (length dts) (length ps)"
  shows "\<forall>s \<in> {initial_submission dts ps, advanced_submission dts ps}.
           length (sub_datetime s) = n \<and> length (sub_count s) = n \<and>
           (\<forall>i<n. sub_datetime s ! i = (if i < length dts then Some (dts ! i) else None) \<and>
                   sub_count s ! i = (if i < length ps then Some (max 0 (ps ! i)) else None))"
  by (simp add: n_def submission_eq length_reindex reindex_nth clip_lower_nth
      clip_lower_def)

theorem submission_aligned_witness:
  "length (sub_datetime (initial_submission [''2011-01-20 00:00:00'', ''2011-01-20 01:00:00''] [7.25])) = 2 \<and>
   length (sub_count (initial_submission [''2011-01-20 00:00:00'', ''2011-01-20 01:00:00''] [7.25])) = 2 \<and>
   sub_datetime (initial_submission [''2011-01-20 00:00:00'', ''2011-01-20 01:00:00''] [7.25]) ! 1 =
     Some ''2011-01-20 01:00:00'' \<and>
   sub_count (initial_submission [''2011-01-20 00:00:00'', ''2011-01-20 01:00:00''] [7.25]) ! 0 =
     Some 7.25 \<and>
   sub_count (initial_submission [''2011-01-20 00:00:00'', ''2011-01-20 01:00:00''] [7.25]) ! 1 =
     None \<and>
   sub_count (advanced_submission [''2011-01-20 00:00:00'', ''2011-01-20 01:00:00''] [7.25]) ! 1 =
     None"
  using submission_aligned [of "[''2011-01-20 00:00:00'', ''2011-01-20 01:00:00'']" "[7.25]"]
  by simp

end
